theory Spec2Isabelle
  imports Main "HOL-Library.Sublist"
begin

section \<open>The authentication diagnostic script \<open>diagnose_auth.py\<close>\<close>

text \<open>
  The script reads a stored token, checks it with one authenticated call (or, when no
  token is stored, offers a fresh login), probes the API endpoint and prints a report.
  The embedding follows the script function by function. What the script does to the
  outside world (printing, prompting, calling the API client, the HTTP GET) is recorded
  as a list of events in program order; what the outside world answers is read from an
  environment record. An exception is a value of the sum type: \<open>Inl\<close> is a raise.

  Text is \<open>string\<close>, read as UTF-8: ASCII text is one byte per character, and the
  pictographs that open many printed lines are written as their UTF-8 bytes. Where the
  script counts or slices characters (\<open>len\<close>, \<open>token[:20]\<close>, \<open>strip\<close>), the model
  groups the bytes into characters first.
\<close>

subsection \<open>Text\<close>

text \<open>
  \<open>str.lower()\<close>. The ASCII capitals are folded; the patterns tested after folding are
  ASCII, and folding a letter outside ASCII never yields a run of pattern characters,
  so the bytes above 127 are left as they are.
\<close>

definition lower_char :: "char \<Rightarrow> char" where
  "lower_char c =
     (let n = (of_char c :: nat) in if 65 \<le> n \<and> n \<le> 90 then char_of (n + 32) else c)"

definition lower :: "string \<Rightarrow> string" where
  "lower s = map lower_char s"

text \<open>The test \<open>p in s\<close> of Python on two strings: \<open>p\<close> occurs in \<open>s\<close> as a contiguous run.\<close>

fun str_in :: "string \<Rightarrow> string \<Rightarrow> bool" where
  "str_in p [] = (p = [])"
| "str_in p (c # cs) = (prefix p (c # cs) \<or> str_in p cs)"

text \<open>
  The characters of a text: each byte that is not a continuation byte (\<open>10xxxxxx\<close>)
  starts a character, which takes the continuation bytes that follow it.
\<close>

definition is_continuation :: "char \<Rightarrow> bool" where
  "is_continuation c = (let n = (of_char c :: nat) in 128 \<le> n \<and> n < 192)"

function utf8_chars :: "string \<Rightarrow> string list" where
  "utf8_chars [] = []"
| "utf8_chars (c # cs) =
     (c # takeWhile is_continuation cs) # utf8_chars (dropWhile is_continuation cs)"
  by pat_completeness auto
termination
  by (relation "measure length") (auto simp: length_dropWhile_le less_Suc_eq_le)

text \<open>\<open>len(s)\<close> on a string: the number of its characters.\<close>

definition str_len :: "string \<Rightarrow> nat" where
  "str_len s = length (utf8_chars s)"

text \<open>
  \<open>str.strip()\<close>: the whitespace characters are removed at both ends. A character is
  whitespace when \<open>str.isspace\<close> holds of it: U+0009 to U+000D, U+001C to U+0020,
  U+0085, U+00A0, U+1680, U+2000 to U+200A, U+2028, U+2029, U+202F, U+205F, U+3000.
\<close>

definition is_space :: "string \<Rightarrow> bool" where
  "is_space ch =
     (case map of_char ch of
        [n :: nat] \<Rightarrow> (9 \<le> n \<and> n \<le> 13) \<or> (28 \<le> n \<and> n \<le> 32)
      | [a, b] \<Rightarrow> a = 0xC2 \<and> (b = 0x85 \<or> b = 0xA0)
      | [a, b, c] \<Rightarrow>
          (a = 0xE1 \<and> b = 0x9A \<and> c = 0x80)
          \<or> (a = 0xE2 \<and> b = 0x80
               \<and> ((0x80 \<le> c \<and> c \<le> 0x8A) \<or> c = 0xA8 \<or> c = 0xA9 \<or> c = 0xAF))
          \<or> (a = 0xE2 \<and> b = 0x81 \<and> c = 0x9F)
          \<or> (a = 0xE3 \<and> b = 0x80 \<and> c = 0x80)
      | _ \<Rightarrow> False)"

definition strip :: "string \<Rightarrow> string" where
  "strip s = concat (rev (dropWhile is_space (rev (dropWhile is_space (utf8_chars s)))))"

text \<open>\<open>str(n)\<close> for a natural number: its decimal digits.\<close>

definition digit_char :: "nat \<Rightarrow> char" where
  "digit_char d = char_of (48 + d)"

function str_nat :: "nat \<Rightarrow> string" where
  "str_nat n = (if n < 10 then [digit_char n] else str_nat (n div 10) @ [digit_char (n mod 10)])"
  by pat_completeness auto
termination
  by (relation "measure id") auto

declare str_nat.simps [simp del]

text \<open>The pictographs of the printed lines, and the line feed.\<close>

definition pic_ok :: string where
  "pic_ok = [CHR 0xE2, CHR 0x9C, CHR 0x85]"

definition pic_cross :: string where
  "pic_cross = [CHR 0xE2, CHR 0x9D, CHR 0x8C]"

definition pic_warn :: string where
  "pic_warn = [CHR 0xE2, CHR 0x9A, CHR 0xA0, CHR 0xEF, CHR 0xB8, CHR 0x8F]"

definition pic_clock :: string where
  "pic_clock = [CHR 0xE2, CHR 0x8F, CHR 0xB0]"

definition pic_arrow :: string where
  "pic_arrow = [CHR 0xE2, CHR 0x86, CHR 0x92]"

definition pic_bullet :: string where
  "pic_bullet = [CHR 0xE2, CHR 0x80, CHR 0xA2]"

definition pic_search :: string where
  "pic_search = [CHR 0xF0, CHR 0x9F, CHR 0x94, CHR 0x8D]"

definition nl :: string where
  "nl = [CHR 0x0A]"

definition apostrophe :: string where
  "apostrophe = [CHR 0x27]"

subsection \<open>Values, exceptions, events\<close>

text \<open>
  What \<open>get_accounts()\<close> may return: the values of a decoded JSON document. A float is
  its mantissa and exponent; a dict is its items in order, the first binding of a key
  being the one that counts.
\<close>

datatype pyval =
    PNone
  | PBool bool
  | PInt int
  | PFloat int int
  | PStr string
  | PList "pyval list"
  | PDict "(string \<times> pyval) list"

text \<open>An exception caught by \<open>except Exception\<close>: \<open>type(e).__name__\<close> and \<open>str(e)\<close>.\<close>

datatype exn = Exn (exn_type_name: string) (exn_str: string)

text \<open>Truth value of an object, as \<open>if accounts\<close> tests it.\<close>

fun truthy :: "pyval \<Rightarrow> bool" where
  "truthy PNone = False"
| "truthy (PBool b) = b"
| "truthy (PInt i) = (i \<noteq> 0)"
| "truthy (PFloat m e) = (m \<noteq> 0)"
| "truthy (PStr s) = (s \<noteq> [])"
| "truthy (PList xs) = (xs \<noteq> [])"
| "truthy (PDict d) = (d \<noteq> [])"

text \<open>\<open>isinstance(v, dict)\<close>.\<close>

fun is_dict :: "pyval \<Rightarrow> bool" where
  "is_dict (PDict d) = True"
| "is_dict v = False"

text \<open>\<open>type(v).__name__\<close>.\<close>

fun type_name :: "pyval \<Rightarrow> string" where
  "type_name PNone = ''NoneType''"
| "type_name (PBool b) = ''bool''"
| "type_name (PInt i) = ''int''"
| "type_name (PFloat m e) = ''float''"
| "type_name (PStr s) = ''str''"
| "type_name (PList xs) = ''list''"
| "type_name (PDict d) = ''dict''"

text \<open>\<open>len(v)\<close>: defined on strings, lists and dicts; a \<open>TypeError\<close> on the rest.\<close>

fun py_len :: "pyval \<Rightarrow> exn + nat" where
  "py_len (PStr s) = Inr (str_len s)"
| "py_len (PList xs) = Inr (length xs)"
| "py_len (PDict d) = Inr (length (remdups (map fst d)))"
| "py_len v =
     Inl (Exn ''TypeError''
            (''object of type '' @ apostrophe @ type_name v @ apostrophe @ '' has no len()''))"

text \<open>\<open>d.get(key, default)\<close> on a dict.\<close>

fun dict_get :: "pyval \<Rightarrow> string \<Rightarrow> pyval \<Rightarrow> pyval" where
  "dict_get (PDict d) k dflt = (case map_of d k of Some v \<Rightarrow> v | None \<Rightarrow> dflt)"
| "dict_get v k dflt = dflt"

text \<open>
  An exception raised by \<open>requests.get\<close>: whether it is an instance of
  \<open>requests.exceptions.Timeout\<close>, of \<open>requests.exceptions.ConnectionError\<close>
  (a connect timeout is both), and \<open>str(e)\<close>.
\<close>

datatype req_exn = ReqExn (is_timeout: bool) (is_connection_error: bool) (req_str: string)

text \<open>How an API client session was obtained.\<close>

datatype session = Token string | Credentials string string

text \<open>What the script does to the outside world, in program order.\<close>

datatype event =
    Print string
  | LoadToken
  | Input string
  | Getpass string
  | NewClient "string option"
  | Login string string
  | GetAccounts
  | HttpGet string nat

text \<open>What the outside world answers during one run.\<close>

record env =
  now :: string
  load_token :: "string option"
  input_line :: string
  getpass_line :: string
  login :: "string \<Rightarrow> string \<Rightarrow> exn option"
  get_accounts :: "session \<Rightarrow> exn + pyval"
  requests_get :: "string \<Rightarrow> nat \<Rightarrow> req_exn + nat"

text \<open>
  The three-way validity result of the specification. The script returns \<open>True\<close>,
  \<open>False\<close> or \<open>None\<close>.
\<close>

datatype validity = VALID | INVALID | RATE_LIMITED

fun classification :: "bool option \<Rightarrow> validity" where
  "classification (Some True) = VALID"
| "classification (Some False) = INVALID"
| "classification None = RATE_LIMITED"

subsection \<open>\<open>test_token_validity\<close>\<close>

text \<open>The \<open>except Exception as e\<close> handler of \<open>test_token_validity\<close>.\<close>

definition token_validity_except :: "exn \<Rightarrow> event list \<times> bool option" where
  "token_validity_except e =
     (let error_str = lower (exn_str e) in
      if str_in ''401'' error_str \<or> str_in ''unauthorized'' error_str
           \<or> str_in ''authentication'' error_str
      then ([Print (pic_cross @ '' Token is EXPIRED or INVALID: '' @ exn_str e)], Some False)
      else if str_in ''429'' error_str \<or> str_in ''rate limit'' error_str
           \<or> str_in ''too many requests'' error_str
      then ([Print (pic_warn @ ''  RATE LIMITED (429): '' @ exn_str e),
             Print ''   This is a temporary issue - wait 30-60 minutes''], None)
      else ([Print (pic_cross @ '' Token test failed with error: '' @ exn_str e),
             Print (''   Error type: '' @ exn_type_name e)], Some False))"

text \<open>The part of the \<open>try\<close> block after the call has returned \<open>accounts\<close>.\<close>

definition token_validity_check :: "pyval \<Rightarrow> exn + event list \<times> bool option" where
  "token_validity_check accounts =
     (if truthy accounts \<and> is_dict accounts then
        (case py_len (dict_get accounts ''accounts'' (PList [])) of
           Inl e \<Rightarrow> Inl e
         | Inr account_count \<Rightarrow>
             Inr ([Print (pic_ok @ '' Token is VALID - Found '' @ str_nat account_count
                            @ '' accounts'')], Some True))
      else Inr ([Print (pic_warn @ ''  Token exists but API returned unexpected format'')],
                Some False))"

definition test_token_validity :: "env \<Rightarrow> string \<Rightarrow> event list \<times> bool option" where
  "test_token_validity env token =
     (let start = [Print (nl @ pic_search @ '' Testing token validity...''),
                   NewClient (Some token), GetAccounts];
          body = (case get_accounts env (Token token) of
                    Inl e \<Rightarrow> Inl e
                  | Inr accounts \<Rightarrow> token_validity_check accounts)
      in case body of
           Inl e \<Rightarrow> (start @ fst (token_validity_except e), snd (token_validity_except e))
         | Inr r \<Rightarrow> (start @ fst r, snd r))"

subsection \<open>\<open>test_fresh_login\<close>\<close>

text \<open>The \<open>except Exception as e\<close> handler of \<open>test_fresh_login\<close>.\<close>

definition fresh_login_except :: "exn \<Rightarrow> event list \<times> bool option" where
  "fresh_login_except e =
     (let error_str = lower (exn_str e) in
      if str_in ''429'' error_str \<or> str_in ''rate limit'' error_str
           \<or> str_in ''too many requests'' error_str
      then ([Print (pic_cross @ '' RATE LIMITED (429) during fresh login: '' @ exn_str e),
             Print (''   '' @ pic_clock @ '' Wait 30-60 minutes before trying again'')], None)
      else if str_in ''401'' error_str \<or> str_in ''unauthorized'' error_str
      then ([Print (pic_cross @ '' Authentication failed: '' @ exn_str e),
             Print ''   Check your credentials''], Some False)
      else ([Print (pic_cross @ '' Fresh login failed: '' @ exn_str e),
             Print (''   Error type: '' @ exn_type_name e)], Some False))"

definition fresh_login_check :: "pyval \<Rightarrow> exn + event list \<times> bool option" where
  "fresh_login_check accounts =
     (if truthy accounts \<and> is_dict accounts then
        (case py_len (dict_get accounts ''accounts'' (PList [])) of
           Inl e \<Rightarrow> Inl e
         | Inr account_count \<Rightarrow>
             Inr ([Print (pic_ok @ '' Fresh login WORKS - Found '' @ str_nat account_count
                            @ '' accounts'')], Some True))
      else Inr ([Print (pic_warn @ ''  Fresh login succeeded but API returned unexpected format'')],
                Some False))"

definition test_fresh_login :: "env \<Rightarrow> string \<Rightarrow> string \<Rightarrow> event list \<times> bool option" where
  "test_fresh_login env email password =
     (let start = [Print (nl @ pic_search @ '' Testing fresh login...''),
                   NewClient None, Login email password]
      in case login env email password of
           Some e \<Rightarrow> (start @ fst (fresh_login_except e), snd (fresh_login_except e))
         | None \<Rightarrow>
             (case (case get_accounts env (Credentials email password) of
                      Inl e \<Rightarrow> Inl e
                    | Inr accounts \<Rightarrow> fresh_login_check accounts) of
                Inl e \<Rightarrow> (start @ [GetAccounts] @ fst (fresh_login_except e),
                          snd (fresh_login_except e))
              | Inr r \<Rightarrow> (start @ [GetAccounts] @ fst r, snd r)))"

subsection \<open>\<open>asyncio.run\<close>\<close>

text \<open>
  \<open>asyncio.run(x)\<close> of the standard library runs \<open>x\<close> to its result when \<open>x\<close> is a
  coroutine object, and raises \<open>ValueError\<close> when it is not. Calling an \<open>async def\<close>
  function gives a coroutine object; calling a plain \<open>def\<close> function runs it and gives
  what it returns.
\<close>

datatype 'a awaitable = Coroutine 'a | NotCoroutine

fun asyncio_run :: "'a awaitable \<Rightarrow> exn + 'a" where
  "asyncio_run (Coroutine r) = Inr r"
| "asyncio_run NotCoroutine = Inl (Exn ''ValueError'' ''a coroutine was expected, got None'')"

subsection \<open>\<open>main\<close>\<close>

definition banner :: string where
  "banner = replicate 80 (CHR ''='')"

text \<open>\<open>if token\<close>: a token that is \<open>None\<close> or the empty string is false.\<close>

fun token_truthy :: "string option \<Rightarrow> bool" where
  "token_truthy None = False"
| "token_truthy (Some t) = (t \<noteq> [])"

text \<open>Lines 89 to 99: the title, the time, the heading of check 1, the read of the token.\<close>

definition preamble :: "env \<Rightarrow> event list" where
  "preamble env =
     [Print banner, Print ''MONARCH AUTHENTICATION DIAGNOSTIC'', Print banner,
      Print (''Time: '' @ now env), Print [],
      Print banner, Print ''CHECK 1: Token Existence'', Print banner,
      LoadToken]"

text \<open>
  Lines 101 to 103: the branch of check 1 taken when the token is true. The preview is
  \<open>token[:20]\<close>, the first twenty characters, and \<open>token[-10:]\<close>, the last ten (the
  whole token when it has fewer).
\<close>

definition token_found :: "string \<Rightarrow> event list" where
  "token_found token =
     [Print (pic_ok @ '' Token EXISTS in keyring''),
      Print (''   Token length: '' @ str_nat (str_len token) @ '' characters''),
      Print (''   Token preview: '' @ concat (take 20 (utf8_chars token)) @ ''...''
               @ concat (drop (str_len token - 10) (utf8_chars token)))]"

text \<open>
  Lines 105 to 120: the branch of check 1 taken when the token is false. It ends with
  \<open>return\<close>; the second component is the exception that leaves \<open>main\<close>, if any.
\<close>

definition no_token :: "env \<Rightarrow> event list \<times> exn option" where
  "no_token env =
     (let out = [Print (pic_cross @ '' No token found in keyring''),
                 Print (''   '' @ pic_arrow @ '' Need to run login_setup.py''),
                 Print [],
                 Print (''Since you can log in via web browser, let'' @ apostrophe
                          @ ''s test fresh login...''),
                 Input (nl @ ''Enter your Monarch email (or press Enter to skip): '')];
          email = strip (input_line env)
      in if email \<noteq> [] then
           (let ask = [Getpass ''Enter your Monarch password: ''];
                password = getpass_line env
            in case asyncio_run (Coroutine (test_fresh_login env email password)) of
                 Inl e \<Rightarrow> (out @ ask, Some e)
               | Inr r \<Rightarrow>
                   (out @ ask @ fst r @
                    [Print (if snd r = Some True then
                              nl @ pic_ok
                                @ '' Fresh login successful! Run login_setup.py to save the session.''
                            else if snd r = None then
                              nl @ pic_clock
                                @ '' Rate limited - wait 30-60 minutes, then run login_setup.py''
                            else nl @ pic_cross @ '' Fresh login failed - check credentials'')],
                    None))
         else (out, None))"

text \<open>Lines 128 to 147: the conclusion printed after the validity check.\<close>

fun conclusion :: "bool option \<Rightarrow> event list" where
  "conclusion (Some True) =
     [Print (nl @ pic_ok @ '' CONCLUSION: Token is valid and working!''),
      Print (''   '' @ pic_arrow @ '' Authentication is working correctly''),
      Print (''   '' @ pic_arrow @ '' Issue may be in how the dashboard scripts call the API'')]"
| "conclusion (Some False) =
     [Print (nl @ pic_cross @ '' CONCLUSION: Token is expired or invalid''),
      Print (''   '' @ pic_arrow @ '' Need to re-authenticate''),
      Print (''   '' @ pic_arrow @ '' Run: python login_setup.py''),
      Print (nl @ ''   Since web login works, this suggests:''),
      Print (''   '' @ pic_bullet @ '' Token may have expired (tokens typically last 30 days)''),
      Print (''   '' @ pic_bullet @ '' Token format may have changed''),
      Print (''   '' @ pic_bullet @ '' API may require re-authentication'')]"
| "conclusion None =
     [Print (nl @ pic_clock @ '' CONCLUSION: Rate limited - cannot determine token validity''),
      Print (''   '' @ pic_arrow @ '' Wait 30-60 minutes''),
      Print (''   '' @ pic_arrow @ '' Then run: python login_setup.py''),
      Print (nl @ ''   Since web login works, this suggests:''),
      Print (''   '' @ pic_bullet @ '' Too many API attempts triggered rate limiting''),
      Print (''   '' @ pic_bullet @ '' Web interface may have different rate limits''),
      Print (''   '' @ pic_bullet @ '' API has stricter rate limiting than web'')]"

text \<open>Lines 150 to 162: check 3, the GET to the API endpoint and its report.\<close>

definition api_connectivity :: "env \<Rightarrow> event list" where
  "api_connectivity env =
     [Print (nl @ banner), Print ''CHECK 3: API Connectivity'', Print banner,
      HttpGet ''https://api.monarchmoney.com'' 5,
      Print (case requests_get env ''https://api.monarchmoney.com'' 5 of
               Inr status_code \<Rightarrow>
                 pic_ok @ '' API endpoint reachable (Status: '' @ str_nat status_code @ '')''
             | Inl e \<Rightarrow>
                 if is_timeout e then pic_warn @ ''  API endpoint timeout - network issue?''
                 else if is_connection_error e then
                   pic_cross @ '' Cannot connect to API - network issue?''
                 else pic_warn @ ''  API connectivity check failed: '' @ req_str e)]"

text \<open>Lines 165 to 189: the summary.\<close>

definition key_findings :: "string option \<Rightarrow> bool option \<Rightarrow> event list" where
  "key_findings token result =
     (if \<not> token_truthy token then
        [Print (''  '' @ pic_bullet @ '' No token stored - need initial authentication'')]
      else if result = Some True then
        [Print (''  '' @ pic_bullet @ '' Token exists and is valid''),
         Print (''  '' @ pic_bullet @ '' Authentication should work'')]
      else if result = Some False then
        [Print (''  '' @ pic_bullet @ '' Token exists but is expired/invalid''),
         Print (''  '' @ pic_bullet @ '' Need to re-authenticate'')]
      else
        [Print (''  '' @ pic_bullet @ '' Token exists but rate limited''),
         Print (''  '' @ pic_bullet @ '' Wait before retrying'')])"

definition summary :: "string option \<Rightarrow> bool option \<Rightarrow> event list" where
  "summary token result =
     [Print (nl @ banner), Print ''DIAGNOSTIC SUMMARY'', Print banner,
      Print (nl @ ''Key Findings:'')]
     @ key_findings token result @
     [Print (nl @ ''Since web login works:''),
      Print (''  '' @ pic_ok @ '' Credentials are correct''),
      Print (''  '' @ pic_ok @ '' Account is not locked''),
      Print (''  '' @ pic_ok @ '' Network connectivity is fine''),
      Print (nl @ ''Possible causes:''),
      Print ''  1. Token expiration (most likely if token exists but invalid)'',
      Print ''  2. Rate limiting from too many API attempts'',
      Print ''  3. API vs Web authentication differences'',
      Print ''  4. Token format changes in Monarch API'']"

text \<open>Lines 191 to 201: the recommended action.\<close>

definition recommended_action :: "string option \<Rightarrow> bool option \<Rightarrow> event list" where
  "recommended_action token result =
     [Print (nl @ banner), Print ''RECOMMENDED ACTION'', Print banner,
      Print (if \<not> token_truthy token then pic_arrow @ '' Run: python login_setup.py''
             else if result = Some False then
               pic_arrow @ '' Token expired - run: python login_setup.py''
             else if result = None then
               pic_arrow @ '' Rate limited - wait 30-60 minutes, then run: python login_setup.py''
             else pic_arrow @ '' Token is valid - check dashboard scripts for other issues'')]"

text \<open>
  Lines 122 to 201: what follows check 1 when the token is true. The second component
  is the exception that leaves \<open>main\<close>, if any.
\<close>

definition with_token :: "env \<Rightarrow> string \<Rightarrow> event list \<times> exn option" where
  "with_token env token =
     (let heading = [Print (nl @ banner), Print ''CHECK 2: Token Validity'', Print banner]
      in case asyncio_run (Coroutine (test_token_validity env token)) of
           Inl e \<Rightarrow> (heading, Some e)
         | Inr r \<Rightarrow>
             (heading @ fst r @ conclusion (snd r) @ api_connectivity env
                @ summary (Some token) (snd r) @ recommended_action (Some token) (snd r),
              None))"

definition main :: "env \<Rightarrow> event list \<times> exn option" where
  "main env =
     (let token = load_token env
      in if token_truthy token then
           (case token of
              Some t \<Rightarrow>
                (preamble env @ token_found t @ fst (with_token env t), snd (with_token env t))
            | None \<Rightarrow> (preamble env @ fst (no_token env), snd (no_token env)))
         else (preamble env @ fst (no_token env), snd (no_token env)))"

subsection \<open>The script\<close>

text \<open>
  Line 204: \<open>asyncio.run(main())\<close>. \<open>main\<close> is a plain function, so \<open>main()\<close> runs the
  whole diagnostic and gives \<open>None\<close>, which is then handed to \<open>asyncio.run\<close>. The
  result is the events of the run and the exit status of the interpreter: 1 when an
  exception is not caught, 0 otherwise.
\<close>

definition script :: "env \<Rightarrow> event list \<times> nat" where
  "script env =
     (case snd (main env) of
        Some e \<Rightarrow> (fst (main env), 1)
      | None \<Rightarrow>
          (case asyncio_run (NotCoroutine :: unit awaitable) of
             Inl e \<Rightarrow> (fst (main env), 1)
           | Inr u \<Rightarrow> (fst (main env), 0)))"

subsection \<open>A mocked environment\<close>

text \<open>
  An environment with a given stored token, a given answer at the e-mail prompt and a
  given outcome of \<open>get_accounts()\<close> for each session; the login succeeds and the
  endpoint answers with status 200.
\<close>

definition mock_env :: "string option \<Rightarrow> string \<Rightarrow> (session \<Rightarrow> exn + pyval) \<Rightarrow> env" where
  "mock_env token email outcome =
     \<lparr> now = ''2025-01-01 00:00:00'', load_token = token, input_line = email,
       getpass_line = ''secret'', login = (\<lambda>e p. None), get_accounts = outcome,
       requests_get = (\<lambda>url timeout. Inr 200) \<rparr>"

subsection \<open>Notions used in the statements\<close>

text \<open>
  The \<open>try\<close> block of \<open>test_fresh_login\<close> makes two calls that can raise: the login,
  and \<open>get_accounts()\<close> once the login has returned.
\<close>

definition fresh_login_raises :: "env \<Rightarrow> string \<Rightarrow> string \<Rightarrow> exn \<Rightarrow> bool" where
  "fresh_login_raises env email password e =
     (login env email password = Some e
      \<or> (login env email password = None
           \<and> get_accounts env (Credentials email password) = Inl e))"

text \<open>The two groups of patterns looked for in the lower-cased message.\<close>

definition auth_words :: "string \<Rightarrow> bool" where
  "auth_words s = (str_in ''401'' s \<or> str_in ''unauthorized'' s)"

definition rate_words :: "string \<Rightarrow> bool" where
  "rate_words s =
     (str_in ''429'' s \<or> str_in ''rate limit'' s \<or> str_in ''too many requests'' s)"

text \<open>The objects that \<open>len\<close> accepts.\<close>

fun sized :: "pyval \<Rightarrow> bool" where
  "sized (PStr s) = True"
| "sized (PList xs) = True"
| "sized (PDict d) = True"
| "sized v = False"

fun is_http_get :: "event \<Rightarrow> bool" where
  "is_http_get (HttpGet url timeout) = True"
| "is_http_get ev = False"

text \<open>
  Answers of a mocked client, one for each of three sessions: a dict without an
  "accounts" entry, an empty dict, and a dict whose "accounts" entry is \<open>None\<close>.
\<close>

definition sample_answers :: "session \<Rightarrow> exn + pyval" where
  "sample_answers s =
     (if s = Token ''A'' \<or> s = Credentials ''a'' ''secret'' then Inr (PDict [(''data'', PNone)])
      else if s = Token ''B'' \<or> s = Credentials ''b'' ''secret'' then Inr (PDict [])
      else Inr (PDict [(''accounts'', PNone)]))"

text \<open>
  The four outcomes that check 3 tells apart, the outcome that the \<open>try\<close> statement of
  lines 153 to 162 selects (the \<open>except\<close> clauses are tried in order), and the line
  reported for each.
\<close>

datatype reachability = Reachable nat | TimedOut | ConnectFailed | OtherFailure string

fun reach_outcome :: "req_exn + nat \<Rightarrow> reachability" where
  "reach_outcome (Inr status_code) = Reachable status_code"
| "reach_outcome (Inl e) =
     (if is_timeout e then TimedOut
      else if is_connection_error e then ConnectFailed
      else OtherFailure (req_str e))"

fun report_line :: "reachability \<Rightarrow> string" where
  "report_line (Reachable status_code) =
     pic_ok @ '' API endpoint reachable (Status: '' @ str_nat status_code @ '')''"
| "report_line TimedOut = pic_warn @ ''  API endpoint timeout - network issue?''"
| "report_line ConnectFailed = pic_cross @ '' Cannot connect to API - network issue?''"
| "report_line (OtherFailure msg) = pic_warn @ ''  API connectivity check failed: '' @ msg"

text \<open>
  Answers of a mocked client whose response has an "accounts" entry, one for each of
  three sessions: a list of three accounts, a string of two characters, and \<open>None\<close>.
\<close>

definition sample_accounts :: "session \<Rightarrow> exn + pyval" where
  "sample_accounts s =
     (if s = Token ''L'' \<or> s = Credentials ''l'' ''secret''
      then Inr (PDict [(''accounts'', PList [PInt 1, PInt 2, PInt 3])])
      else if s = Token ''S'' \<or> s = Credentials ''s'' ''secret''
      then Inr (PDict [(''accounts'', PStr ''ab'')])
      else Inr (PDict [(''accounts'', PNone)]))"

section \<open>Properties\<close>

subsection \<open>Substrings and lower-casing\<close>

text \<open>\<open>str_in\<close> is the occurrence of a contiguous run.\<close>
lemma str_in_iff: "str_in p s \<longleftrightarrow> (\<exists>a b. s = a @ p @ b)"
proof (induction s)
  case Nil
  then show ?case by auto
next
  case (Cons c cs)
  show ?case
  proof
    assume "str_in p (c # cs)"
    then consider "prefix p (c # cs)" | "str_in p cs" by auto
    then show "\<exists>a b. c # cs = a @ p @ b"
    proof cases
      case 1
      then obtain b where "c # cs = p @ b" by (auto simp: prefix_def)
      then have "c # cs = [] @ p @ b" by simp
      then show ?thesis by blast
    next
      case 2
      with Cons.IH obtain a b where "cs = a @ p @ b" by blast
      then have "c # cs = (c # a) @ p @ b" by simp
      then show ?thesis by blast
    qed
  next
    assume "\<exists>a b. c # cs = a @ p @ b"
    then obtain a b where ab: "c # cs = a @ p @ b" by blast
    show "str_in p (c # cs)"
    proof (cases a)
      case Nil
      with ab have "prefix p (c # cs)" by (simp add: prefix_def)
      then show ?thesis by simp
    next
      case (Cons x a')
      with ab have "cs = a' @ p @ b" by simp
      with Cons.IH have "str_in p cs" by blast
      then show ?thesis by simp
    qed
  qed
qed

lemma str_in_lower:
  assumes "str_in p s" and "lower p = p"
  shows "str_in p (lower s)"
proof -
  from assms(1) obtain a b where "s = a @ p @ b" unfolding str_in_iff by blast
  then have "lower s = lower a @ lower p @ lower b" by (simp add: lower_def)
  with assms(2) show ?thesis unfolding str_in_iff by metis
qed

lemma lower_401: "lower ''401'' = ''401''"
  by code_simp

lemma lower_unauthorized: "lower ''unauthorized'' = ''unauthorized''"
  by code_simp

lemma lower_429: "lower ''429'' = ''429''"
  by code_simp

lemma lower_rate_limit: "lower ''rate limit'' = ''rate limit''"
  by code_simp

lemma lower_too_many: "lower ''too many requests'' = ''too many requests''"
  by code_simp

lemma auth_words_lower: "auth_words s \<Longrightarrow> auth_words (lower s)"
  unfolding auth_words_def using str_in_lower lower_401 lower_unauthorized by blast

lemma rate_words_lower: "rate_words s \<Longrightarrow> rate_words (lower s)"
  unfolding rate_words_def
  using str_in_lower lower_429 lower_rate_limit lower_too_many by blast

subsection \<open>What the two handlers return\<close>

lemma token_validity_except_result:
  "snd (token_validity_except e) =
     (if auth_words (lower (exn_str e)) \<or> str_in ''authentication'' (lower (exn_str e))
      then Some False
      else if rate_words (lower (exn_str e)) then None else Some False)"
  by (simp add: token_validity_except_def auth_words_def rate_words_def Let_def)

lemma fresh_login_except_result:
  "snd (fresh_login_except e) =
     (if rate_words (lower (exn_str e)) then None else Some False)"
  by (simp add: fresh_login_except_def auth_words_def rate_words_def Let_def)

lemma test_token_validity_raise:
  "get_accounts env (Token token) = Inl e \<Longrightarrow>
     snd (test_token_validity env token) = snd (token_validity_except e)"
  by (simp add: test_token_validity_def)

lemma test_fresh_login_raise:
  "fresh_login_raises env email password e \<Longrightarrow>
     snd (test_fresh_login env email password) = snd (fresh_login_except e)"
  by (auto simp: test_fresh_login_def fresh_login_raises_def)

subsection \<open>Messages that contain 401\<close>

text \<open>
  Claim C1, as amended. When the call made with the stored token raises an exception
  whose message contains "401" or "unauthorized", \<open>test_token_validity\<close> classifies
  INVALID. When the login or the call after it raises such an exception,
  \<open>test_fresh_login\<close> classifies INVALID if the lower-cased message contains none of
  "429", "rate limit", "too many requests", and RATE_LIMITED if it contains one of
  them: its handler looks for the rate-limit patterns first.
\<close>

theorem message_401_classification:
  assumes "auth_words (exn_str e)"
  shows "(get_accounts env (Token token) = Inl e \<longrightarrow>
            classification (snd (test_token_validity env token)) = INVALID)
       \<and> (fresh_login_raises env email password e \<and> \<not> rate_words (lower (exn_str e)) \<longrightarrow>
            classification (snd (test_fresh_login env email password)) = INVALID)
       \<and> (fresh_login_raises env email password e \<and> rate_words (lower (exn_str e)) \<longrightarrow>
            classification (snd (test_fresh_login env email password)) = RATE_LIMITED)"
  using auth_words_lower [OF assms]
  by (auto simp: test_token_validity_raise test_fresh_login_raise
        token_validity_except_result fresh_login_except_result)

text \<open>The theorem at the message "401 Unauthorized".\<close>

theorem message_401_classification_witness:
  "auth_words (exn_str (Exn ''Exception'' ''401 Unauthorized''))
   \<and> get_accounts (mock_env (Some ''BADTOKEN'') ''me@example.com''
          (\<lambda>s. Inl (Exn ''Exception'' ''401 Unauthorized''))) (Token ''BADTOKEN'')
       = Inl (Exn ''Exception'' ''401 Unauthorized'')
   \<and> classification (snd (test_token_validity (mock_env (Some ''BADTOKEN'') ''me@example.com''
          (\<lambda>s. Inl (Exn ''Exception'' ''401 Unauthorized''))) ''BADTOKEN'')) = INVALID
   \<and> fresh_login_raises (mock_env (Some ''BADTOKEN'') ''me@example.com''
          (\<lambda>s. Inl (Exn ''Exception'' ''401 Unauthorized''))) ''me@example.com'' ''secret''
          (Exn ''Exception'' ''401 Unauthorized'')
   \<and> \<not> rate_words (lower (exn_str (Exn ''Exception'' ''401 Unauthorized'')))
   \<and> classification (snd (test_fresh_login (mock_env (Some ''BADTOKEN'') ''me@example.com''
          (\<lambda>s. Inl (Exn ''Exception'' ''401 Unauthorized''))) ''me@example.com'' ''secret''))
       = INVALID"
proof -
  let ?e = "Exn ''Exception'' ''401 Unauthorized''"
  let ?env = "mock_env (Some ''BADTOKEN'') ''me@example.com'' (\<lambda>s. Inl ?e)"
  have h1: "auth_words (exn_str ?e)" by code_simp
  have h2: "get_accounts ?env (Token ''BADTOKEN'') = Inl ?e" by (simp add: mock_env_def)
  have h3: "fresh_login_raises ?env ''me@example.com'' ''secret'' ?e"
    by (simp add: mock_env_def fresh_login_raises_def)
  have h4: "\<not> rate_words (lower (exn_str ?e))" by code_simp
  show ?thesis
    using h1 h2 h3 h4
      message_401_classification [OF h1, of ?env "''BADTOKEN''" "''me@example.com''" "''secret''"]
    by simp
qed

text \<open>
  Claim C1 as stated fails for \<open>test_fresh_login\<close>: a message that contains "401" and
  "rate limit" is classified RATE_LIMITED.
\<close>

theorem fresh_login_401_counterexample:
  "str_in ''401'' ''401 Unauthorized (rate limit exceeded)''
   \<and> fresh_login_raises
         (mock_env None ''me@example.com''
            (\<lambda>s. Inl (Exn ''Exception'' ''401 Unauthorized (rate limit exceeded)'')))
         ''me@example.com'' ''secret''
         (Exn ''Exception'' ''401 Unauthorized (rate limit exceeded)'')
   \<and> classification (snd (test_fresh_login
         (mock_env None ''me@example.com''
            (\<lambda>s. Inl (Exn ''Exception'' ''401 Unauthorized (rate limit exceeded)'')))
         ''me@example.com'' ''secret'')) = RATE_LIMITED"
  by code_simp

subsection \<open>Messages that contain 429\<close>

text \<open>
  Claim C2, as amended. When the login or the call after it raises an exception whose
  message contains "429", "rate limit" or "too many requests", \<open>test_fresh_login\<close>
  classifies RATE_LIMITED. When the call made with the stored token raises such an
  exception, \<open>test_token_validity\<close> classifies RATE_LIMITED if the lower-cased message
  contains none of "401", "unauthorized", "authentication", and INVALID if it contains
  one of them: its handler looks for the authentication patterns first.
\<close>

theorem message_429_classification:
  assumes "rate_words (exn_str e)"
  shows "(fresh_login_raises env email password e \<longrightarrow>
            classification (snd (test_fresh_login env email password)) = RATE_LIMITED)
       \<and> (get_accounts env (Token token) = Inl e
            \<and> \<not> auth_words (lower (exn_str e))
            \<and> \<not> str_in ''authentication'' (lower (exn_str e)) \<longrightarrow>
            classification (snd (test_token_validity env token)) = RATE_LIMITED)
       \<and> (get_accounts env (Token token) = Inl e
            \<and> (auth_words (lower (exn_str e))
                 \<or> str_in ''authentication'' (lower (exn_str e))) \<longrightarrow>
            classification (snd (test_token_validity env token)) = INVALID)"
  using rate_words_lower [OF assms]
  by (auto simp: test_token_validity_raise test_fresh_login_raise
        token_validity_except_result fresh_login_except_result)

text \<open>The theorem at the message "HTTP Code 429: Too Many Requests".\<close>

theorem message_429_classification_witness:
  "rate_words (exn_str (Exn ''Exception'' ''HTTP Code 429: Too Many Requests''))
   \<and> fresh_login_raises
         (mock_env None ''me@example.com''
            (\<lambda>s. Inl (Exn ''Exception'' ''HTTP Code 429: Too Many Requests'')))
         ''me@example.com'' ''secret'' (Exn ''Exception'' ''HTTP Code 429: Too Many Requests'')
   \<and> classification (snd (test_fresh_login
         (mock_env None ''me@example.com''
            (\<lambda>s. Inl (Exn ''Exception'' ''HTTP Code 429: Too Many Requests'')))
         ''me@example.com'' ''secret'')) = RATE_LIMITED
   \<and> get_accounts
         (mock_env None ''me@example.com''
            (\<lambda>s. Inl (Exn ''Exception'' ''HTTP Code 429: Too Many Requests'')))
         (Token ''TOKEN'') = Inl (Exn ''Exception'' ''HTTP Code 429: Too Many Requests'')
   \<and> \<not> auth_words (lower (exn_str (Exn ''Exception'' ''HTTP Code 429: Too Many Requests'')))
   \<and> \<not> str_in ''authentication''
         (lower (exn_str (Exn ''Exception'' ''HTTP Code 429: Too Many Requests'')))
   \<and> classification (snd (test_token_validity
         (mock_env None ''me@example.com''
            (\<lambda>s. Inl (Exn ''Exception'' ''HTTP Code 429: Too Many Requests'')))
         ''TOKEN'')) = RATE_LIMITED"
proof -
  let ?e = "Exn ''Exception'' ''HTTP Code 429: Too Many Requests''"
  let ?env = "mock_env None ''me@example.com'' (\<lambda>s. Inl ?e)"
  have h1: "rate_words (exn_str ?e)" by code_simp
  have h2: "fresh_login_raises ?env ''me@example.com'' ''secret'' ?e"
    by (simp add: mock_env_def fresh_login_raises_def)
  have h3: "get_accounts ?env (Token ''TOKEN'') = Inl ?e" by (simp add: mock_env_def)
  have h4: "\<not> auth_words (lower (exn_str ?e))" by code_simp
  have h5: "\<not> str_in ''authentication'' (lower (exn_str ?e))" by code_simp
  show ?thesis
    using h1 h2 h3 h4 h5
      message_429_classification [OF h1, of ?env "''me@example.com''" "''secret''" "''TOKEN''"]
    by simp
qed

text \<open>
  Claim C2 as stated fails for \<open>test_token_validity\<close>: a message that contains "429"
  and "authentication" is classified INVALID.
\<close>

theorem token_validity_429_counterexample:
  "str_in ''429'' ''429 Too Many Requests: authentication throttled''
   \<and> get_accounts
         (mock_env (Some ''TOKEN'') []
            (\<lambda>s. Inl (Exn ''Exception'' ''429 Too Many Requests: authentication throttled'')))
         (Token ''TOKEN'')
       = Inl (Exn ''Exception'' ''429 Too Many Requests: authentication throttled'')
   \<and> classification (snd (test_token_validity
         (mock_env (Some ''TOKEN'') []
            (\<lambda>s. Inl (Exn ''Exception'' ''429 Too Many Requests: authentication throttled'')))
         ''TOKEN'')) = INVALID"
  by code_simp

subsection \<open>The two classifiers compared\<close>

text \<open>
  Claim C3, as amended. On one and the same exception, \<open>test_token_validity\<close> and
  \<open>test_fresh_login\<close> give the same classification exactly when the lower-cased message
  does not contain both an authentication pattern ("401", "unauthorized",
  "authentication") and a rate-limit pattern ("429", "rate limit", "too many
  requests"). On a message with both, the first gives INVALID and the second
  RATE_LIMITED.
\<close>

theorem classifiers_agreement:
  assumes "get_accounts env (Token token) = Inl e"
    and "fresh_login_raises env email password e"
  shows "(classification (snd (test_token_validity env token))
            = classification (snd (test_fresh_login env email password))
          \<longleftrightarrow> \<not> ((auth_words (lower (exn_str e))
                     \<or> str_in ''authentication'' (lower (exn_str e)))
                  \<and> rate_words (lower (exn_str e))))
       \<and> ((auth_words (lower (exn_str e)) \<or> str_in ''authentication'' (lower (exn_str e)))
            \<and> rate_words (lower (exn_str e)) \<longrightarrow>
          classification (snd (test_token_validity env token)) = INVALID
          \<and> classification (snd (test_fresh_login env email password)) = RATE_LIMITED)"
  using assms
  by (auto simp: test_token_validity_raise test_fresh_login_raise
        token_validity_except_result fresh_login_except_result)

text \<open>
  The theorem at the message "401 Unauthorized", on which both classify INVALID, and
  at the message "429 Too Many Requests: unauthorized", which has a pattern of each
  group.
\<close>

theorem classifiers_agreement_witness:
  "get_accounts
      (mock_env (Some ''BADTOKEN'') ''me@example.com''
         (\<lambda>s. Inl (Exn ''Exception'' ''401 Unauthorized'')))
      (Token ''BADTOKEN'') = Inl (Exn ''Exception'' ''401 Unauthorized'')
   \<and> fresh_login_raises
        (mock_env (Some ''BADTOKEN'') ''me@example.com''
           (\<lambda>s. Inl (Exn ''Exception'' ''401 Unauthorized'')))
        ''me@example.com'' ''secret'' (Exn ''Exception'' ''401 Unauthorized'')
   \<and> classification (snd (test_token_validity
        (mock_env (Some ''BADTOKEN'') ''me@example.com''
           (\<lambda>s. Inl (Exn ''Exception'' ''401 Unauthorized''))) ''BADTOKEN''))
     = classification (snd (test_fresh_login
        (mock_env (Some ''BADTOKEN'') ''me@example.com''
           (\<lambda>s. Inl (Exn ''Exception'' ''401 Unauthorized''))) ''me@example.com'' ''secret''))
   \<and> get_accounts
        (mock_env (Some ''BADTOKEN'') ''me@example.com''
           (\<lambda>s. Inl (Exn ''Exception'' ''429 Too Many Requests: unauthorized'')))
        (Token ''BADTOKEN'') = Inl (Exn ''Exception'' ''429 Too Many Requests: unauthorized'')
   \<and> fresh_login_raises
        (mock_env (Some ''BADTOKEN'') ''me@example.com''
           (\<lambda>s. Inl (Exn ''Exception'' ''429 Too Many Requests: unauthorized'')))
        ''me@example.com'' ''secret''
        (Exn ''Exception'' ''429 Too Many Requests: unauthorized'')
   \<and> auth_words (lower (exn_str (Exn ''Exception'' ''429 Too Many Requests: unauthorized'')))
   \<and> rate_words (lower (exn_str (Exn ''Exception'' ''429 Too Many Requests: unauthorized'')))
   \<and> classification (snd (test_token_validity
        (mock_env (Some ''BADTOKEN'') ''me@example.com''
           (\<lambda>s. Inl (Exn ''Exception'' ''429 Too Many Requests: unauthorized'')))
        ''BADTOKEN'')) = INVALID
   \<and> classification (snd (test_fresh_login
        (mock_env (Some ''BADTOKEN'') ''me@example.com''
           (\<lambda>s. Inl (Exn ''Exception'' ''429 Too Many Requests: unauthorized'')))
        ''me@example.com'' ''secret'')) = RATE_LIMITED"
proof -
  let ?e = "Exn ''Exception'' ''401 Unauthorized''"
  let ?env = "mock_env (Some ''BADTOKEN'') ''me@example.com'' (\<lambda>s. Inl ?e)"
  let ?e' = "Exn ''Exception'' ''429 Too Many Requests: unauthorized''"
  let ?env' = "mock_env (Some ''BADTOKEN'') ''me@example.com'' (\<lambda>s. Inl ?e')"
  have h1: "get_accounts ?env (Token ''BADTOKEN'') = Inl ?e" by (simp add: mock_env_def)
  have h2: "fresh_login_raises ?env ''me@example.com'' ''secret'' ?e"
    by (simp add: mock_env_def fresh_login_raises_def)
  have h3: "\<not> rate_words (lower (exn_str ?e))" by code_simp
  have k1: "get_accounts ?env' (Token ''BADTOKEN'') = Inl ?e'" by (simp add: mock_env_def)
  have k2: "fresh_login_raises ?env' ''me@example.com'' ''secret'' ?e'"
    by (simp add: mock_env_def fresh_login_raises_def)
  have k3: "auth_words (lower (exn_str ?e'))" by code_simp
  have k4: "rate_words (lower (exn_str ?e'))" by code_simp
  show ?thesis
    using h1 h2 h3 k1 k2 k3 k4
      classifiers_agreement [OF h1 h2] classifiers_agreement [OF k1 k2]
    by simp
qed

text \<open>
  Claim C3 as stated fails: on a message with "429" and "401" in it the two
  classifiers differ.
\<close>

theorem classifiers_differ_counterexample:
  "classification (snd (test_token_validity
      (mock_env (Some ''TOKEN'') ''me@example.com''
         (\<lambda>s. Inl (Exn ''Exception'' ''429 Too Many Requests (request 4401)'')))
      ''TOKEN'')) = INVALID
   \<and> classification (snd (test_fresh_login
      (mock_env (Some ''TOKEN'') ''me@example.com''
         (\<lambda>s. Inl (Exn ''Exception'' ''429 Too Many Requests (request 4401)'')))
      ''me@example.com'' ''secret'')) = RATE_LIMITED"
  by code_simp

subsection \<open>Successful calls\<close>

lemma sized_py_len: "sized v \<longleftrightarrow> (\<exists>n. py_len v = Inr n)"
  by (cases v) simp_all

lemma token_validity_except_not_valid: "snd (token_validity_except e) \<noteq> Some True"
  by (simp add: token_validity_except_result)

lemma fresh_login_except_not_valid: "snd (fresh_login_except e) \<noteq> Some True"
  by (simp add: fresh_login_except_result)

text \<open>\<open>str_nat\<close> writes the decimal digits of its argument: reading them back gives it.\<close>

lemma str_nat_digits: "foldl (\<lambda>a c. 10 * a + (of_char c - 48)) 0 (str_nat n) = n"
proof (induction n rule: str_nat.induct)
  case (1 n)
  have d: "of_char (digit_char k) - 48 = k" if "k < 10" for k :: nat
    using that by (simp add: digit_char_def)
  show ?case
  proof (cases "n < 10")
    case True
    then show ?thesis by (subst str_nat.simps) (simp add: d)
  next
    case False
    then have "foldl (\<lambda>a c. 10 * a + (of_char c - 48)) 0 (str_nat (n div 10)) = n div 10"
      using 1 by simp
    with False show ?thesis by (subst str_nat.simps) (simp add: d)
  qed
qed

lemma token_validity_check_valid:
  "(\<exists>out. token_validity_check v = Inr (out, Some True))
     \<longleftrightarrow> truthy v \<and> is_dict v \<and> sized (dict_get v ''accounts'' (PList []))"
  by (auto simp: token_validity_check_def sized_py_len split: sum.splits)

lemma fresh_login_check_valid:
  "(\<exists>out. fresh_login_check v = Inr (out, Some True))
     \<longleftrightarrow> truthy v \<and> is_dict v \<and> sized (dict_get v ''accounts'' (PList []))"
  by (auto simp: fresh_login_check_def sized_py_len split: sum.splits)

lemma test_token_validity_valid:
  "snd (test_token_validity env token) = Some True
     \<longleftrightarrow> (\<exists>v out. get_accounts env (Token token) = Inr v
                  \<and> token_validity_check v = Inr (out, Some True))"
  by (auto simp: test_token_validity_def Let_def token_validity_except_not_valid
      split: sum.splits)

lemma test_fresh_login_valid:
  "snd (test_fresh_login env email password) = Some True
     \<longleftrightarrow> login env email password = None
         \<and> (\<exists>v out. get_accounts env (Credentials email password) = Inr v
                  \<and> fresh_login_check v = Inr (out, Some True))"
  by (auto simp: test_fresh_login_def Let_def fresh_login_except_not_valid
      split: sum.splits option.splits)

subsection \<open>Which successful calls are classified VALID\<close>

text \<open>
  The \<open>TypeError\<close> that \<open>len\<close> raises inside the \<open>try\<close> block is caught by the handler of
  the same function; its message matches no pattern, so the result is \<open>False\<close>.
\<close>

lemma len_error_unmatched:
  assumes "\<not> sized x"
  shows "\<exists>e. py_len x = Inl e \<and> snd (token_validity_except e) = Some False
           \<and> snd (fresh_login_except e) = Some False"
proof (cases x)
  case PNone
  have "snd (token_validity_except (Exn ''TypeError''
          (''object of type '' @ apostrophe @ ''NoneType'' @ apostrophe @ '' has no len()'')))
        = Some False
      \<and> snd (fresh_login_except (Exn ''TypeError''
          (''object of type '' @ apostrophe @ ''NoneType'' @ apostrophe @ '' has no len()'')))
        = Some False"
    by code_simp
  with PNone show ?thesis by simp
next
  case (PBool b)
  have "snd (token_validity_except (Exn ''TypeError''
          (''object of type '' @ apostrophe @ ''bool'' @ apostrophe @ '' has no len()'')))
        = Some False
      \<and> snd (fresh_login_except (Exn ''TypeError''
          (''object of type '' @ apostrophe @ ''bool'' @ apostrophe @ '' has no len()'')))
        = Some False"
    by code_simp
  with PBool show ?thesis by simp
next
  case (PInt i)
  have "snd (token_validity_except (Exn ''TypeError''
          (''object of type '' @ apostrophe @ ''int'' @ apostrophe @ '' has no len()'')))
        = Some False
      \<and> snd (fresh_login_except (Exn ''TypeError''
          (''object of type '' @ apostrophe @ ''int'' @ apostrophe @ '' has no len()'')))
        = Some False"
    by code_simp
  with PInt show ?thesis by simp
next
  case (PFloat m e)
  have "snd (token_validity_except (Exn ''TypeError''
          (''object of type '' @ apostrophe @ ''float'' @ apostrophe @ '' has no len()'')))
        = Some False
      \<and> snd (fresh_login_except (Exn ''TypeError''
          (''object of type '' @ apostrophe @ ''float'' @ apostrophe @ '' has no len()'')))
        = Some False"
    by code_simp
  with PFloat show ?thesis by simp
next
  case (PStr s)
  with assms show ?thesis by simp
next
  case (PList xs)
  with assms show ?thesis by simp
next
  case (PDict d)
  with assms show ?thesis by simp
qed

lemma str_nat_0: "str_nat 0 = ''0''"
  by code_simp

lemma test_token_validity_returns:
  "get_accounts env (Token token) = Inr v \<Longrightarrow>
   test_token_validity env token =
     (case token_validity_check v of
        Inl e \<Rightarrow> ([Print (nl @ pic_search @ '' Testing token validity...''),
                   NewClient (Some token), GetAccounts] @ fst (token_validity_except e),
                  snd (token_validity_except e))
      | Inr r \<Rightarrow> ([Print (nl @ pic_search @ '' Testing token validity...''),
                   NewClient (Some token), GetAccounts] @ fst r, snd r))"
  by (simp add: test_token_validity_def Let_def)

lemma test_fresh_login_returns:
  "login env email password = None \<Longrightarrow>
   get_accounts env (Credentials email password) = Inr v \<Longrightarrow>
   test_fresh_login env email password =
     (case fresh_login_check v of
        Inl e \<Rightarrow> ([Print (nl @ pic_search @ '' Testing fresh login...''),
                   NewClient None, Login email password, GetAccounts]
                    @ fst (fresh_login_except e),
                  snd (fresh_login_except e))
      | Inr r \<Rightarrow> ([Print (nl @ pic_search @ '' Testing fresh login...''),
                   NewClient None, Login email password, GetAccounts] @ fst r, snd r))"
  by (simp add: test_fresh_login_def Let_def split: sum.splits)

lemma token_validity_check_unsized:
  assumes "truthy u" "is_dict u" "\<not> sized (dict_get u ''accounts'' (PList []))"
  shows "\<exists>e. token_validity_check u = Inl e \<and> snd (token_validity_except e) = Some False"
  using assms len_error_unmatched [OF assms(3)]
  by (auto simp: token_validity_check_def)

lemma fresh_login_check_unsized:
  assumes "truthy u" "is_dict u" "\<not> sized (dict_get u ''accounts'' (PList []))"
  shows "\<exists>e. fresh_login_check u = Inl e \<and> snd (fresh_login_except e) = Some False"
  using assms len_error_unmatched [OF assms(3)]
  by (auto simp: fresh_login_check_def)

lemma check_not_dict:
  assumes "w = PDict [] \<or> \<not> is_dict w"
  shows "\<exists>out. token_validity_check w = Inr (out, Some False)"
    and "\<exists>out. fresh_login_check w = Inr (out, Some False)"
  using assms by (auto simp: token_validity_check_def fresh_login_check_def)

text \<open>
  Claim C4, as amended. When the call returns a dict in which an object that has a
  length (a list, a string or a dict) is stored under "accounts", the classification is
  VALID and the line printed reports \<open>len\<close> of that object: for a list, the length of the
  list. When the object stored under "accounts" has no length (\<open>None\<close>, a boolean, a
  number), the classification is INVALID. This holds for \<open>test_token_validity\<close> and,
  once the login has returned, for \<open>test_fresh_login\<close>.
\<close>

theorem accounts_key_valid_count:
  "(get_accounts env (Token token1) = Inr (PDict d1)
      \<and> map_of d1 ''accounts'' = Some (PList xs1) \<longrightarrow>
      classification (snd (test_token_validity env token1)) = VALID
      \<and> fst (test_token_validity env token1) =
          [Print (nl @ pic_search @ '' Testing token validity...''),
           NewClient (Some token1), GetAccounts,
           Print (pic_ok @ '' Token is VALID - Found '' @ str_nat (length xs1) @ '' accounts'')])
   \<and> (get_accounts env (Token token2) = Inr (PDict d2)
      \<and> map_of d2 ''accounts'' = Some v2 \<and> py_len v2 = Inr n2 \<longrightarrow>
      classification (snd (test_token_validity env token2)) = VALID
      \<and> fst (test_token_validity env token2) =
          [Print (nl @ pic_search @ '' Testing token validity...''),
           NewClient (Some token2), GetAccounts,
           Print (pic_ok @ '' Token is VALID - Found '' @ str_nat n2 @ '' accounts'')])
   \<and> (get_accounts env (Token token3) = Inr (PDict d3)
      \<and> map_of d3 ''accounts'' = Some v3 \<and> \<not> sized v3 \<longrightarrow>
      classification (snd (test_token_validity env token3)) = INVALID)
   \<and> (login env email4 password4 = None
      \<and> get_accounts env (Credentials email4 password4) = Inr (PDict d4)
      \<and> map_of d4 ''accounts'' = Some (PList xs4) \<longrightarrow>
      classification (snd (test_fresh_login env email4 password4)) = VALID
      \<and> fst (test_fresh_login env email4 password4) =
          [Print (nl @ pic_search @ '' Testing fresh login...''),
           NewClient None, Login email4 password4, GetAccounts,
           Print (pic_ok @ '' Fresh login WORKS - Found '' @ str_nat (length xs4) @ '' accounts'')])
   \<and> (login env email5 password5 = None
      \<and> get_accounts env (Credentials email5 password5) = Inr (PDict d5)
      \<and> map_of d5 ''accounts'' = Some v5 \<and> py_len v5 = Inr n5 \<longrightarrow>
      classification (snd (test_fresh_login env email5 password5)) = VALID
      \<and> fst (test_fresh_login env email5 password5) =
          [Print (nl @ pic_search @ '' Testing fresh login...''),
           NewClient None, Login email5 password5, GetAccounts,
           Print (pic_ok @ '' Fresh login WORKS - Found '' @ str_nat n5 @ '' accounts'')])
   \<and> (login env email6 password6 = None
      \<and> get_accounts env (Credentials email6 password6) = Inr (PDict d6)
      \<and> map_of d6 ''accounts'' = Some v6 \<and> \<not> sized v6 \<longrightarrow>
      classification (snd (test_fresh_login env email6 password6)) = INVALID)"
proof -
  have ne: "map_of m ''accounts'' = Some v \<Longrightarrow> m \<noteq> []" for m :: "(string \<times> pyval) list" and v
    by auto
  have t: "classification (snd (test_token_validity env tok)) = VALID
      \<and> fst (test_token_validity env tok) =
          [Print (nl @ pic_search @ '' Testing token validity...''),
           NewClient (Some tok), GetAccounts,
           Print (pic_ok @ '' Token is VALID - Found '' @ str_nat n @ '' accounts'')]"
    if "get_accounts env (Token tok) = Inr (PDict d)" "map_of d ''accounts'' = Some v"
       "py_len v = Inr n" for tok d v n
    using that ne [OF that(2)]
    by (simp add: test_token_validity_returns token_validity_check_def)
  have f: "classification (snd (test_fresh_login env em pw)) = VALID
      \<and> fst (test_fresh_login env em pw) =
          [Print (nl @ pic_search @ '' Testing fresh login...''),
           NewClient None, Login em pw, GetAccounts,
           Print (pic_ok @ '' Fresh login WORKS - Found '' @ str_nat n @ '' accounts'')]"
    if "login env em pw = None" "get_accounts env (Credentials em pw) = Inr (PDict d)"
       "map_of d ''accounts'' = Some v" "py_len v = Inr n" for em pw d v n
    using that ne [OF that(3)]
    by (simp add: test_fresh_login_returns fresh_login_check_def)
  have l: "py_len (PList xs) = Inr (length xs)" for xs
    by simp
  have t': "classification (snd (test_token_validity env tok)) = INVALID"
    if "get_accounts env (Token tok) = Inr (PDict d)" "map_of d ''accounts'' = Some v"
       "\<not> sized v" for tok d v
  proof -
    have "truthy (PDict d)" "is_dict (PDict d)"
      "\<not> sized (dict_get (PDict d) ''accounts'' (PList []))"
      using that(2,3) ne [OF that(2)] by simp_all
    from token_validity_check_unsized [OF this] that(1) show ?thesis
      by (auto simp: test_token_validity_returns)
  qed
  have f': "classification (snd (test_fresh_login env em pw)) = INVALID"
    if "login env em pw = None" "get_accounts env (Credentials em pw) = Inr (PDict d)"
       "map_of d ''accounts'' = Some v" "\<not> sized v" for em pw d v
  proof -
    have "truthy (PDict d)" "is_dict (PDict d)"
      "\<not> sized (dict_get (PDict d) ''accounts'' (PList []))"
      using that(3,4) ne [OF that(3)] by simp_all
    from fresh_login_check_unsized [OF this] that(1,2) show ?thesis
      by (auto simp: test_fresh_login_returns)
  qed
  have c1: "get_accounts env (Token token1) = Inr (PDict d1)
      \<and> map_of d1 ''accounts'' = Some (PList xs1) \<longrightarrow>
      classification (snd (test_token_validity env token1)) = VALID
      \<and> fst (test_token_validity env token1) =
          [Print (nl @ pic_search @ '' Testing token validity...''),
           NewClient (Some token1), GetAccounts,
           Print (pic_ok @ '' Token is VALID - Found '' @ str_nat (length xs1) @ '' accounts'')]"
    using t [OF _ _ l] by blast
  have c2: "get_accounts env (Token token2) = Inr (PDict d2)
      \<and> map_of d2 ''accounts'' = Some v2 \<and> py_len v2 = Inr n2 \<longrightarrow>
      classification (snd (test_token_validity env token2)) = VALID
      \<and> fst (test_token_validity env token2) =
          [Print (nl @ pic_search @ '' Testing token validity...''),
           NewClient (Some token2), GetAccounts,
           Print (pic_ok @ '' Token is VALID - Found '' @ str_nat n2 @ '' accounts'')]"
    using t by blast
  have c3: "get_accounts env (Token token3) = Inr (PDict d3)
      \<and> map_of d3 ''accounts'' = Some v3 \<and> \<not> sized v3 \<longrightarrow>
      classification (snd (test_token_validity env token3)) = INVALID"
    using t' by blast
  have c4: "login env email4 password4 = None
      \<and> get_accounts env (Credentials email4 password4) = Inr (PDict d4)
      \<and> map_of d4 ''accounts'' = Some (PList xs4) \<longrightarrow>
      classification (snd (test_fresh_login env email4 password4)) = VALID
      \<and> fst (test_fresh_login env email4 password4) =
          [Print (nl @ pic_search @ '' Testing fresh login...''),
           NewClient None, Login email4 password4, GetAccounts,
           Print (pic_ok @ '' Fresh login WORKS - Found '' @ str_nat (length xs4) @ '' accounts'')]"
    using f [OF _ _ _ l] by blast
  have c5: "login env email5 password5 = None
      \<and> get_accounts env (Credentials email5 password5) = Inr (PDict d5)
      \<and> map_of d5 ''accounts'' = Some v5 \<and> py_len v5 = Inr n5 \<longrightarrow>
      classification (snd (test_fresh_login env email5 password5)) = VALID
      \<and> fst (test_fresh_login env email5 password5) =
          [Print (nl @ pic_search @ '' Testing fresh login...''),
           NewClient None, Login email5 password5, GetAccounts,
           Print (pic_ok @ '' Fresh login WORKS - Found '' @ str_nat n5 @ '' accounts'')]"
    using f by blast
  have c6: "login env email6 password6 = None
      \<and> get_accounts env (Credentials email6 password6) = Inr (PDict d6)
      \<and> map_of d6 ''accounts'' = Some v6 \<and> \<not> sized v6 \<longrightarrow>
      classification (snd (test_fresh_login env email6 password6)) = INVALID"
    using f' by blast
  show ?thesis
    by (intro conjI) (rule c1, rule c2, rule c3, rule c4, rule c5, rule c6)
qed

text \<open>
  The theorem at a mocked client that answers \<open>{"accounts": [1, 2, 3]}\<close>,
  \<open>{"accounts": "ab"}\<close> and \<open>{"accounts": None}\<close> to three sessions: three accounts are
  reported for the first, two for the second, and the third is INVALID.
\<close>

theorem accounts_key_valid_count_witness:
  "get_accounts (mock_env None [] sample_accounts) (Token ''L'')
      = Inr (PDict [(''accounts'', PList [PInt 1, PInt 2, PInt 3])])
   \<and> map_of [(''accounts'', PList [PInt 1, PInt 2, PInt 3])] ''accounts''
      = Some (PList [PInt 1, PInt 2, PInt 3])
   \<and> classification (snd (test_token_validity (mock_env None [] sample_accounts) ''L''))
      = VALID
   \<and> fst (test_token_validity (mock_env None [] sample_accounts) ''L'') =
       [Print (nl @ pic_search @ '' Testing token validity...''),
        NewClient (Some ''L''), GetAccounts,
        Print (pic_ok @ '' Token is VALID - Found 3 accounts'')]
   \<and> get_accounts (mock_env None [] sample_accounts) (Token ''S'')
      = Inr (PDict [(''accounts'', PStr ''ab'')])
   \<and> map_of [(''accounts'', PStr ''ab'')] ''accounts'' = Some (PStr ''ab'')
   \<and> py_len (PStr ''ab'') = Inr 2
   \<and> classification (snd (test_token_validity (mock_env None [] sample_accounts) ''S''))
      = VALID
   \<and> fst (test_token_validity (mock_env None [] sample_accounts) ''S'') =
       [Print (nl @ pic_search @ '' Testing token validity...''),
        NewClient (Some ''S''), GetAccounts,
        Print (pic_ok @ '' Token is VALID - Found 2 accounts'')]
   \<and> get_accounts (mock_env None [] sample_accounts) (Token ''N'')
      = Inr (PDict [(''accounts'', PNone)])
   \<and> map_of [(''accounts'', PNone)] ''accounts'' = Some PNone
   \<and> \<not> sized PNone
   \<and> classification (snd (test_token_validity (mock_env None [] sample_accounts) ''N''))
      = INVALID
   \<and> login (mock_env None [] sample_accounts) ''l'' ''secret'' = None
   \<and> get_accounts (mock_env None [] sample_accounts) (Credentials ''l'' ''secret'')
      = Inr (PDict [(''accounts'', PList [PInt 1, PInt 2, PInt 3])])
   \<and> classification (snd (test_fresh_login (mock_env None [] sample_accounts) ''l'' ''secret''))
      = VALID
   \<and> fst (test_fresh_login (mock_env None [] sample_accounts) ''l'' ''secret'') =
       [Print (nl @ pic_search @ '' Testing fresh login...''),
        NewClient None, Login ''l'' ''secret'', GetAccounts,
        Print (pic_ok @ '' Fresh login WORKS - Found 3 accounts'')]
   \<and> login (mock_env None [] sample_accounts) ''s'' ''secret'' = None
   \<and> get_accounts (mock_env None [] sample_accounts) (Credentials ''s'' ''secret'')
      = Inr (PDict [(''accounts'', PStr ''ab'')])
   \<and> classification (snd (test_fresh_login (mock_env None [] sample_accounts) ''s'' ''secret''))
      = VALID
   \<and> fst (test_fresh_login (mock_env None [] sample_accounts) ''s'' ''secret'') =
       [Print (nl @ pic_search @ '' Testing fresh login...''),
        NewClient None, Login ''s'' ''secret'', GetAccounts,
        Print (pic_ok @ '' Fresh login WORKS - Found 2 accounts'')]
   \<and> login (mock_env None [] sample_accounts) ''n'' ''secret'' = None
   \<and> get_accounts (mock_env None [] sample_accounts) (Credentials ''n'' ''secret'')
      = Inr (PDict [(''accounts'', PNone)])
   \<and> classification (snd (test_fresh_login (mock_env None [] sample_accounts) ''n'' ''secret''))
      = INVALID"
proof -
  let ?env = "mock_env None [] sample_accounts"
  let ?L = "[(''accounts'', PList [PInt 1, PInt 2, PInt 3])]"
  let ?S = "[(''accounts'', PStr ''ab'')]"
  let ?N = "[(''accounts'', PNone)]"
  have a: "get_accounts ?env (Token ''L'') = Inr (PDict ?L)"
    "get_accounts ?env (Token ''S'') = Inr (PDict ?S)"
    "get_accounts ?env (Token ''N'') = Inr (PDict ?N)"
    "get_accounts ?env (Credentials ''l'' ''secret'') = Inr (PDict ?L)"
    "get_accounts ?env (Credentials ''s'' ''secret'') = Inr (PDict ?S)"
    "get_accounts ?env (Credentials ''n'' ''secret'') = Inr (PDict ?N)"
    by (simp_all add: mock_env_def sample_accounts_def)
  have b: "login ?env x y = None" for x y
    by (simp add: mock_env_def)
  have c: "py_len (PStr ''ab'') = Inr 2" by code_simp
  have d: "str_nat (length [PInt 1, PInt 2, PInt 3]) = ''3''" "str_nat 2 = ''2''"
    by code_simp+
  show ?thesis
    using a b c d
      accounts_key_valid_count [of ?env
        "''L''" ?L "[PInt 1, PInt 2, PInt 3]"
        "''S''" ?S "PStr ''ab''" 2
        "''N''" ?N PNone
        "''l''" "''secret''" ?L "[PInt 1, PInt 2, PInt 3]"
        "''s''" "''secret''" ?S "PStr ''ab''" 2
        "''n''" "''secret''" ?N PNone]
    by simp
qed

text \<open>
  Claim C4 as stated fails: the fresh login succeeds and the call returns
  \<open>{"accounts": None}\<close>, a mapping with an "accounts" key, and the classification is
  INVALID.
\<close>

theorem accounts_key_none_counterexample:
  "login (mock_env None ''me@example.com'' (\<lambda>s. Inr (PDict [(''accounts'', PNone)])))
      ''me@example.com'' ''secret'' = None
   \<and> get_accounts (mock_env None ''me@example.com'' (\<lambda>s. Inr (PDict [(''accounts'', PNone)])))
      (Credentials ''me@example.com'' ''secret'') = Inr (PDict [(''accounts'', PNone)])
   \<and> map_of [(''accounts'', PNone)] ''accounts'' = Some PNone
   \<and> classification (snd (test_fresh_login
         (mock_env None ''me@example.com'' (\<lambda>s. Inr (PDict [(''accounts'', PNone)])))
         ''me@example.com'' ''secret'')) = INVALID"
  by code_simp

text \<open>
  Claim C9, as amended. The classification is VALID exactly when the call returns,
  without an exception, a non-empty dict whose "accounts" entry (the empty list when
  there is none) is an object that has a length: a string, a list or a dict. In
  particular a non-empty dict without an "accounts" entry is VALID with a reported
  count of 0, and an empty dict or a value that is not a dict is INVALID. A non-empty
  dict whose "accounts" entry has no length (\<open>None\<close>, a boolean, a number) is INVALID:
  \<open>len\<close> raises inside the \<open>try\<close> block and the handler returns \<open>False\<close>.
\<close>

theorem valid_iff_sized_dict:
  "(classification (snd (test_token_validity env token)) = VALID
      \<longleftrightarrow> (\<exists>v. get_accounts env (Token token) = Inr v \<and> truthy v \<and> is_dict v
                \<and> sized (dict_get v ''accounts'' (PList []))))
   \<and> (classification (snd (test_fresh_login env email password)) = VALID
      \<longleftrightarrow> login env email password = None
          \<and> (\<exists>v. get_accounts env (Credentials email password) = Inr v \<and> truthy v
                \<and> is_dict v \<and> sized (dict_get v ''accounts'' (PList []))))
   \<and> (get_accounts env (Token token1) = Inr (PDict d1) \<and> d1 \<noteq> []
        \<and> map_of d1 ''accounts'' = None \<longrightarrow>
        test_token_validity env token1 =
          ([Print (nl @ pic_search @ '' Testing token validity...''),
            NewClient (Some token1), GetAccounts,
            Print (pic_ok @ '' Token is VALID - Found 0 accounts'')], Some True))
   \<and> (get_accounts env (Token token2) = Inr w2 \<and> (w2 = PDict [] \<or> \<not> is_dict w2) \<longrightarrow>
        classification (snd (test_token_validity env token2)) = INVALID)
   \<and> (get_accounts env (Token token3) = Inr u3 \<and> truthy u3 \<and> is_dict u3
        \<and> \<not> sized (dict_get u3 ''accounts'' (PList [])) \<longrightarrow>
        classification (snd (test_token_validity env token3)) = INVALID)
   \<and> (login env email4 password4 = None
        \<and> get_accounts env (Credentials email4 password4) = Inr (PDict d4) \<and> d4 \<noteq> []
        \<and> map_of d4 ''accounts'' = None \<longrightarrow>
        test_fresh_login env email4 password4 =
          ([Print (nl @ pic_search @ '' Testing fresh login...''),
            NewClient None, Login email4 password4, GetAccounts,
            Print (pic_ok @ '' Fresh login WORKS - Found 0 accounts'')], Some True))
   \<and> (login env email5 password5 = None
        \<and> get_accounts env (Credentials email5 password5) = Inr w5
        \<and> (w5 = PDict [] \<or> \<not> is_dict w5) \<longrightarrow>
        classification (snd (test_fresh_login env email5 password5)) = INVALID)
   \<and> (login env email6 password6 = None
        \<and> get_accounts env (Credentials email6 password6) = Inr u6 \<and> truthy u6
        \<and> is_dict u6 \<and> \<not> sized (dict_get u6 ''accounts'' (PList [])) \<longrightarrow>
        classification (snd (test_fresh_login env email6 password6)) = INVALID)"
proof -
  have v: "classification r = VALID \<longleftrightarrow> r = Some True" for r
    by (cases r rule: classification.cases) simp_all
  have c1: "classification (snd (test_token_validity env token)) = VALID
      \<longleftrightarrow> (\<exists>v. get_accounts env (Token token) = Inr v \<and> truthy v \<and> is_dict v
                \<and> sized (dict_get v ''accounts'' (PList [])))"
    unfolding v test_token_validity_valid
    using token_validity_check_valid by blast
  have c2: "classification (snd (test_fresh_login env email password)) = VALID
      \<longleftrightarrow> login env email password = None
          \<and> (\<exists>v. get_accounts env (Credentials email password) = Inr v \<and> truthy v
                \<and> is_dict v \<and> sized (dict_get v ''accounts'' (PList [])))"
    unfolding v test_fresh_login_valid
    using fresh_login_check_valid by blast
  have c3: "test_token_validity env token1 =
          ([Print (nl @ pic_search @ '' Testing token validity...''),
            NewClient (Some token1), GetAccounts,
            Print (pic_ok @ '' Token is VALID - Found 0 accounts'')], Some True)"
    if "get_accounts env (Token token1) = Inr (PDict d1)" "d1 \<noteq> []"
       "map_of d1 ''accounts'' = None"
    using that by (simp add: test_token_validity_returns token_validity_check_def str_nat_0)
  have c4: "classification (snd (test_token_validity env token2)) = INVALID"
    if "get_accounts env (Token token2) = Inr w2" "w2 = PDict [] \<or> \<not> is_dict w2"
    using that(1) check_not_dict(1) [OF that(2)]
    by (auto simp: test_token_validity_returns)
  have c5: "classification (snd (test_token_validity env token3)) = INVALID"
    if "get_accounts env (Token token3) = Inr u3" "truthy u3" "is_dict u3"
       "\<not> sized (dict_get u3 ''accounts'' (PList []))"
    using that(1) token_validity_check_unsized [OF that(2-4)]
    by (auto simp: test_token_validity_returns)
  have c6: "test_fresh_login env email4 password4 =
          ([Print (nl @ pic_search @ '' Testing fresh login...''),
            NewClient None, Login email4 password4, GetAccounts,
            Print (pic_ok @ '' Fresh login WORKS - Found 0 accounts'')], Some True)"
    if "login env email4 password4 = None"
       "get_accounts env (Credentials email4 password4) = Inr (PDict d4)" "d4 \<noteq> []"
       "map_of d4 ''accounts'' = None"
    using that by (simp add: test_fresh_login_returns fresh_login_check_def str_nat_0)
  have c7: "classification (snd (test_fresh_login env email5 password5)) = INVALID"
    if "login env email5 password5 = None"
       "get_accounts env (Credentials email5 password5) = Inr w5"
       "w5 = PDict [] \<or> \<not> is_dict w5"
    using that(1,2) check_not_dict(2) [OF that(3)]
    by (auto simp: test_fresh_login_returns)
  have c8: "classification (snd (test_fresh_login env email6 password6)) = INVALID"
    if "login env email6 password6 = None"
       "get_accounts env (Credentials email6 password6) = Inr u6" "truthy u6" "is_dict u6"
       "\<not> sized (dict_get u6 ''accounts'' (PList []))"
    using that(1,2) fresh_login_check_unsized [OF that(3-5)]
    by (auto simp: test_fresh_login_returns)
  show ?thesis using c1 c2 c3 c4 c5 c6 c7 c8 by blast
qed

text \<open>
  The theorem at a mocked client that answers \<open>{"data": None}\<close>, \<open>{}\<close> and
  \<open>{"accounts": None}\<close> to three sessions.
\<close>

theorem valid_iff_sized_dict_witness:
  "get_accounts (mock_env None [] sample_answers) (Token ''A'') = Inr (PDict [(''data'', PNone)])
   \<and> [(''data'', PNone)] \<noteq> [] \<and> map_of [(''data'', PNone)] ''accounts'' = None
   \<and> test_token_validity (mock_env None [] sample_answers) ''A'' =
       ([Print (nl @ pic_search @ '' Testing token validity...''),
         NewClient (Some ''A''), GetAccounts,
         Print (pic_ok @ '' Token is VALID - Found 0 accounts'')], Some True)
   \<and> get_accounts (mock_env None [] sample_answers) (Token ''B'') = Inr (PDict [])
   \<and> classification (snd (test_token_validity (mock_env None [] sample_answers) ''B''))
       = INVALID
   \<and> get_accounts (mock_env None [] sample_answers) (Token ''C'')
       = Inr (PDict [(''accounts'', PNone)])
   \<and> truthy (PDict [(''accounts'', PNone)]) \<and> is_dict (PDict [(''accounts'', PNone)])
   \<and> \<not> sized (dict_get (PDict [(''accounts'', PNone)]) ''accounts'' (PList []))
   \<and> classification (snd (test_token_validity (mock_env None [] sample_answers) ''C''))
       = INVALID
   \<and> login (mock_env None [] sample_answers) ''a'' ''secret'' = None
   \<and> get_accounts (mock_env None [] sample_answers) (Credentials ''a'' ''secret'')
       = Inr (PDict [(''data'', PNone)])
   \<and> test_fresh_login (mock_env None [] sample_answers) ''a'' ''secret'' =
       ([Print (nl @ pic_search @ '' Testing fresh login...''),
         NewClient None, Login ''a'' ''secret'', GetAccounts,
         Print (pic_ok @ '' Fresh login WORKS - Found 0 accounts'')], Some True)
   \<and> login (mock_env None [] sample_answers) ''b'' ''secret'' = None
   \<and> get_accounts (mock_env None [] sample_answers) (Credentials ''b'' ''secret'')
       = Inr (PDict [])
   \<and> classification (snd (test_fresh_login (mock_env None [] sample_answers) ''b'' ''secret''))
       = INVALID
   \<and> login (mock_env None [] sample_answers) ''c'' ''secret'' = None
   \<and> get_accounts (mock_env None [] sample_answers) (Credentials ''c'' ''secret'')
       = Inr (PDict [(''accounts'', PNone)])
   \<and> classification (snd (test_fresh_login (mock_env None [] sample_answers) ''c'' ''secret''))
       = INVALID"
proof -
  let ?env = "mock_env None [] sample_answers"
  have a: "get_accounts ?env (Token ''A'') = Inr (PDict [(''data'', PNone)])"
    by (simp add: mock_env_def sample_answers_def)
  have b: "get_accounts ?env (Token ''B'') = Inr (PDict [])"
    by (simp add: mock_env_def sample_answers_def)
  have c: "get_accounts ?env (Token ''C'') = Inr (PDict [(''accounts'', PNone)])"
    by (simp add: mock_env_def sample_answers_def)
  have l: "login ?env x y = None" for x y
    by (simp add: mock_env_def)
  have a': "get_accounts ?env (Credentials ''a'' ''secret'') = Inr (PDict [(''data'', PNone)])"
    by (simp add: mock_env_def sample_answers_def)
  have b': "get_accounts ?env (Credentials ''b'' ''secret'') = Inr (PDict [])"
    by (simp add: mock_env_def sample_answers_def)
  have c': "get_accounts ?env (Credentials ''c'' ''secret'')
              = Inr (PDict [(''accounts'', PNone)])"
    by (simp add: mock_env_def sample_answers_def)
  show ?thesis
    using a b c l a' b' c'
      valid_iff_sized_dict [of ?env "''A''" "''a''" "''secret''"
        "''A''" "[(''data'', PNone)]" "''B''" "PDict []"
        "''C''" "PDict [(''accounts'', PNone)]"
        "''a''" "''secret''" "[(''data'', PNone)]"
        "''b''" "''secret''" "PDict []"
        "''c''" "''secret''" "PDict [(''accounts'', PNone)]"]
    by simp
qed

text \<open>
  Claim C9 as stated fails: the call returns the non-empty dict \<open>{"accounts": None}\<close>
  without an exception, and the classification is INVALID.
\<close>

theorem truthy_dict_invalid_counterexample:
  "get_accounts (mock_env (Some ''TOKEN'') [] (\<lambda>s. Inr (PDict [(''accounts'', PNone)])))
      (Token ''TOKEN'') = Inr (PDict [(''accounts'', PNone)])
   \<and> truthy (PDict [(''accounts'', PNone)]) \<and> is_dict (PDict [(''accounts'', PNone)])
   \<and> classification (snd (test_token_validity
         (mock_env (Some ''TOKEN'') [] (\<lambda>s. Inr (PDict [(''accounts'', PNone)])))
         ''TOKEN'')) = INVALID"
  by code_simp

subsection \<open>Which path \<open>main\<close> takes\<close>

lemma test_fresh_login_no_token_client:
  "NewClient (Some t) \<notin> set (fst (test_fresh_login env email password))"
  by (auto simp: test_fresh_login_def fresh_login_except_def fresh_login_check_def Let_def
      split: option.splits sum.splits if_splits)


lemma no_token_no_token_client: "NewClient (Some t) \<notin> set (fst (no_token env))"
  by (simp add: no_token_def Let_def test_fresh_login_no_token_client)


lemma main_no_token:
  "\<not> token_truthy (load_token env) \<Longrightarrow>
     main env = (preamble env @ fst (no_token env), snd (no_token env))"
  by (simp add: main_def)




text \<open>
  Claim C10. A stored token that is the empty string gives the same run as no stored
  token: the script prints that no token was found, prompts for the e-mail address of
  the fresh-login path, and makes no client with a stored token.
\<close>

theorem empty_token_as_absent:
  "main (env\<lparr>load_token := Some []\<rparr>) = main (env\<lparr>load_token := None\<rparr>)
   \<and> Print (pic_cross @ '' No token found in keyring'')
        \<in> set (fst (main (env\<lparr>load_token := Some []\<rparr>)))
   \<and> Input (nl @ ''Enter your Monarch email (or press Enter to skip): '')
        \<in> set (fst (main (env\<lparr>load_token := Some []\<rparr>)))
   \<and> (\<forall>t. NewClient (Some t) \<notin> set (fst (main (env\<lparr>load_token := Some []\<rparr>))))"
proof -
  have f: "test_fresh_login (env\<lparr>load_token := x\<rparr>) e p = test_fresh_login env e p"
    for x e p
    by (simp add: test_fresh_login_def Let_def split: option.splits sum.splits)
  have n: "no_token (env\<lparr>load_token := x\<rparr>) = no_token env" for x
    by (simp add: no_token_def f Let_def)
  have p: "preamble (env\<lparr>load_token := x\<rparr>) = preamble env" for x
    by (simp add: preamble_def)
  have m: "main (env\<lparr>load_token := Some []\<rparr>) = (preamble env @ fst (no_token env), snd (no_token env))"
    by (simp add: main_no_token n p)
  have m': "main (env\<lparr>load_token := None\<rparr>) = (preamble env @ fst (no_token env), snd (no_token env))"
    by (simp add: main_no_token n p)
  have i: "Print (pic_cross @ '' No token found in keyring'') \<in> set (fst (no_token env))"
    "Input (nl @ ''Enter your Monarch email (or press Enter to skip): '') \<in> set (fst (no_token env))"
    by (simp_all add: no_token_def Let_def split: sum.splits)
  show ?thesis
    using i by (simp add: m m' preamble_def no_token_no_token_client)
qed

text \<open>The theorem at a mocked environment.\<close>

theorem empty_token_as_absent_witness:
  "main ((mock_env (Some ''GOODTOKEN'') ''me@example.com'' sample_answers)\<lparr>load_token := Some []\<rparr>)
     = main ((mock_env (Some ''GOODTOKEN'') ''me@example.com'' sample_answers)\<lparr>load_token := None\<rparr>)"
  using empty_token_as_absent [of "mock_env (Some ''GOODTOKEN'') ''me@example.com'' sample_answers"]
  by simp

subsection \<open>The exit status\<close>

text \<open>
  Claim C6 says that every run ends with exit code 0. On the code every run ends with
  exit status 1: \<open>main\<close> is a plain function, so line 204 hands its return value
  \<open>None\<close> to \<open>asyncio.run\<close>, which raises \<open>ValueError\<close> outside any \<open>try\<close>.
\<close>

theorem script_exit_status: "snd (script env) = 1"
  by (simp add: script_def split: option.splits)

text \<open>
  A run with the token "GOODTOKEN" and a client that returns three accounts: \<open>main\<close>
  returns normally, and the script ends with exit status 1.
\<close>

theorem script_exit_status_witness:
  "snd (main (mock_env (Some ''GOODTOKEN'') []
          (\<lambda>s. Inr (PDict [(''accounts'', PList [PInt 1, PInt 2, PInt 3])])))) = None
   \<and> snd (script (mock_env (Some ''GOODTOKEN'') []
          (\<lambda>s. Inr (PDict [(''accounts'', PList [PInt 1, PInt 2, PInt 3])])))) = 1"
proof -
  let ?env = "mock_env (Some ''GOODTOKEN'') []
          (\<lambda>s. Inr (PDict [(''accounts'', PList [PInt 1, PInt 2, PInt 3])]))"
  have "snd (main ?env) = None" by code_simp
  then show ?thesis using script_exit_status [of ?env] by simp
qed

subsection \<open>The conclusion and the recommended action\<close>






subsection \<open>The reachability check\<close>

lemma str_nat_inj: "str_nat m = str_nat n \<Longrightarrow> m = n"
  by (metis str_nat_digits)

lemma report_line_inj: "inj report_line"
proof (rule injI)
  fix a b
  assume "report_line a = report_line b"
  then show "a = b"
    by (cases a; cases b)
      (auto simp: pic_ok_def pic_warn_def pic_cross_def dest: str_nat_inj)
qed

text \<open>
  Claim C8. Check 3 issues exactly one GET, to \<open>https://api.monarchmoney.com\<close> with a
  timeout of 5 seconds, and then prints one line: the report of the outcome that the
  \<open>try\<close> statement selects among reachable (any HTTP response, with its status),
  timeout, connection failure and other failure. The four reports are told apart: no
  two outcomes have the same line.
\<close>

theorem reachability_check:
  "api_connectivity env =
     [Print (nl @ banner), Print ''CHECK 3: API Connectivity'', Print banner,
      HttpGet ''https://api.monarchmoney.com'' 5,
      Print (report_line (reach_outcome
               (requests_get env ''https://api.monarchmoney.com'' 5)))]
   \<and> filter is_http_get (api_connectivity env) = [HttpGet ''https://api.monarchmoney.com'' 5]
   \<and> inj report_line"
proof -
  have "(case requests_get env ''https://api.monarchmoney.com'' 5 of
               Inr status_code \<Rightarrow>
                 pic_ok @ '' API endpoint reachable (Status: '' @ str_nat status_code @ '')''
             | Inl e \<Rightarrow>
                 if is_timeout e then pic_warn @ ''  API endpoint timeout - network issue?''
                 else if is_connection_error e then
                   pic_cross @ '' Cannot connect to API - network issue?''
                 else pic_warn @ ''  API connectivity check failed: '' @ req_str e)
        = report_line (reach_outcome (requests_get env ''https://api.monarchmoney.com'' 5))"
    by (cases "requests_get env ''https://api.monarchmoney.com'' 5") simp_all
  then show ?thesis
    by (simp add: api_connectivity_def report_line_inj)
qed

text \<open>The theorem at an endpoint that answers with status 200.\<close>

theorem reachability_check_witness:
  "api_connectivity (mock_env (Some ''GOODTOKEN'') [] sample_answers) =
     [Print (nl @ banner), Print ''CHECK 3: API Connectivity'', Print banner,
      HttpGet ''https://api.monarchmoney.com'' 5,
      Print (pic_ok @ '' API endpoint reachable (Status: 200)'')]"
proof -
  have "str_nat 200 = ''200''" by code_simp
  then show ?thesis
    using reachability_check [of "mock_env (Some ''GOODTOKEN'') [] sample_answers"]
    by (simp add: mock_env_def)
qed

end
